theory Spec2Isabelle
  imports Complex_Main
begin

section \<open>JavaScript numbers\<close>

text \<open>
  The scoring code computes on JavaScript \<open>number\<close>s. A \<open>number\<close> is modelled as a
  real or one of the three special values. Arithmetic on finite values is real
  arithmetic within the range of a double: a result whose magnitude reaches \<open>2^1024\<close>
  is an infinity, and one of at most \<open>2^-1075\<close> is zero. The rounding of a result to
  53 bits and the sign of zero are not modelled. What the language does at the special
  values (\<open>NaN\<close> poisons arithmetic and makes every comparison false, division by zero
  yields an infinity) is written out case by case.
\<close>

datatype number = Fin real | PosInf | NegInf | NaN

text \<open>The number that an arithmetic operation returns when its exact result is \<open>x\<close>.\<close>

definition double_of :: "real \<Rightarrow> number" where
  "double_of x =
     (if 2 ^ 1024 \<le> x then PosInf
      else if x \<le> - (2 ^ 1024) then NegInf
      else if \<bar>x\<bar> \<le> 1 / 2 ^ 1075 then Fin 0
      else Fin x)"

text \<open>The operators \<open><\<close>, \<open>>\<close>, \<open><=\<close> and \<open>===\<close> on numbers.\<close>

fun js_lt :: "number \<Rightarrow> number \<Rightarrow> bool" where
  "js_lt NaN _ = False"
| "js_lt _ NaN = False"
| "js_lt (Fin x) (Fin y) = (x < y)"
| "js_lt (Fin x) PosInf = True"
| "js_lt (Fin x) NegInf = False"
| "js_lt PosInf _ = False"
| "js_lt NegInf NegInf = False"
| "js_lt NegInf _ = True"

definition js_gt :: "number \<Rightarrow> number \<Rightarrow> bool" where
  "js_gt a b = js_lt b a"

fun js_eq :: "number \<Rightarrow> number \<Rightarrow> bool" where
  "js_eq NaN _ = False"
| "js_eq _ NaN = False"
| "js_eq a b = (a = b)"

definition js_le :: "number \<Rightarrow> number \<Rightarrow> bool" where
  "js_le a b = (js_lt a b \<or> js_eq a b)"

text \<open>The operator \<open>*\<close>: an infinity times zero is \<open>NaN\<close>; a large product overflows.\<close>

fun js_mul :: "number \<Rightarrow> number \<Rightarrow> number" where
  "js_mul NaN _ = NaN"
| "js_mul _ NaN = NaN"
| "js_mul (Fin x) (Fin y) = double_of (x * y)"
| "js_mul (Fin x) PosInf = (if x = 0 then NaN else if 0 < x then PosInf else NegInf)"
| "js_mul (Fin x) NegInf = (if x = 0 then NaN else if 0 < x then NegInf else PosInf)"
| "js_mul PosInf (Fin y) = (if y = 0 then NaN else if 0 < y then PosInf else NegInf)"
| "js_mul NegInf (Fin y) = (if y = 0 then NaN else if 0 < y then NegInf else PosInf)"
| "js_mul PosInf PosInf = PosInf"
| "js_mul PosInf NegInf = NegInf"
| "js_mul NegInf PosInf = NegInf"
| "js_mul NegInf NegInf = PosInf"

text \<open>
  The operator \<open>/\<close>: a non-zero value over zero is an infinity, zero over zero and an
  infinity over an infinity are \<open>NaN\<close>. (The zero divisor is taken as \<open>+0\<close>.)
\<close>

fun js_div :: "number \<Rightarrow> number \<Rightarrow> number" where
  "js_div NaN _ = NaN"
| "js_div _ NaN = NaN"
| "js_div (Fin x) (Fin y) =
     (if y \<noteq> 0 then double_of (x / y)
      else if x = 0 then NaN else if 0 < x then PosInf else NegInf)"
| "js_div (Fin x) PosInf = Fin 0"
| "js_div (Fin x) NegInf = Fin 0"
| "js_div PosInf (Fin y) = (if 0 \<le> y then PosInf else NegInf)"
| "js_div NegInf (Fin y) = (if 0 \<le> y then NegInf else PosInf)"
| "js_div PosInf _ = NaN"
| "js_div NegInf _ = NaN"

text \<open>
  \<open>Math.pow(base, exponent)\<close>, after the case list of the language standard
  (\<open>Number::exponentiate\<close>): a \<open>NaN\<close> exponent gives \<open>NaN\<close>, a zero exponent gives 1
  for every base, a negative base with a fractional exponent gives \<open>NaN\<close>, and a
  power beyond the range of a double is an infinity (\<open>Math.pow(2, 1024)\<close>) or zero.
\<close>

definition is_integer :: "real \<Rightarrow> bool" where
  "is_integer y = (of_int \<lfloor>y\<rfloor> = y)"

definition is_odd_integer :: "real \<Rightarrow> bool" where
  "is_odd_integer y = (is_integer y \<and> odd \<lfloor>y\<rfloor>)"

fun Math_pow :: "number \<Rightarrow> number \<Rightarrow> number" where
  "Math_pow _ NaN = NaN"
| "Math_pow b (Fin y) =
     (if y = 0 then Fin 1
      else case b of
        NaN \<Rightarrow> NaN
      | PosInf \<Rightarrow> (if 0 < y then PosInf else Fin 0)
      | NegInf \<Rightarrow> (if 0 < y then (if is_odd_integer y then NegInf else PosInf) else Fin 0)
      | Fin x \<Rightarrow>
          (if x = 0 then (if 0 < y then Fin 0 else PosInf)
           else if 0 < x then double_of (x powr y)
           else if is_integer y
             then double_of (if odd \<lfloor>y\<rfloor> then - ((- x) powr y) else (- x) powr y)
             else NaN))"
| "Math_pow NaN PosInf = NaN"
| "Math_pow NaN NegInf = NaN"
| "Math_pow PosInf PosInf = PosInf"
| "Math_pow PosInf NegInf = Fin 0"
| "Math_pow NegInf PosInf = PosInf"
| "Math_pow NegInf NegInf = Fin 0"
| "Math_pow (Fin x) PosInf =
     (if 1 < \<bar>x\<bar> then PosInf else if \<bar>x\<bar> = 1 then NaN else Fin 0)"
| "Math_pow (Fin x) NegInf =
     (if 1 < \<bar>x\<bar> then Fin 0 else if \<bar>x\<bar> = 1 then NaN else PosInf)"

text \<open>
  \<open>Math.log2\<close>: \<open>NaN\<close> below zero, minus infinity at zero. The logarithm of a double
  is always within the range of a double.
\<close>

fun Math_log2 :: "number \<Rightarrow> number" where
  "Math_log2 NaN = NaN"
| "Math_log2 NegInf = NaN"
| "Math_log2 PosInf = PosInf"
| "Math_log2 (Fin x) = (if x < 0 then NaN else if x = 0 then NegInf else Fin (log 2 x))"

text \<open>
  \<open>Math.min\<close> and \<open>Math.max\<close> of two arguments: \<open>NaN\<close> if either argument is \<open>NaN\<close>.
  \<open>Math.min(a, b, c)\<close> folds the binary minimum from the left.
\<close>

definition Math_min :: "number \<Rightarrow> number \<Rightarrow> number" where
  "Math_min a b =
     (if a = NaN \<or> b = NaN then NaN else if js_lt b a then b else a)"

definition Math_max :: "number \<Rightarrow> number \<Rightarrow> number" where
  "Math_max a b =
     (if a = NaN \<or> b = NaN then NaN else if js_lt a b then b else a)"

definition Math_min3 :: "number \<Rightarrow> number \<Rightarrow> number \<Rightarrow> number" where
  "Math_min3 a b c = Math_min (Math_min a b) c"

section \<open>The breach penalty\<close>

record PenalizedEntropyResult =
  entropy :: number
  isPenalized :: bool

text \<open>
  \<open>calculatePenalizedEntropy\<close>, statement by statement. Its locals \<open>frequency\<close>,
  \<open>rank\<close> and \<open>penalizedEntropy\<close> depend on the breach count only and are given as
  functions of it, so that statements can refer to them. The call of \<open>console.debug\<close>
  only writes a log line and is left out.
\<close>

definition zipf_C :: number where
  "zipf_C = Fin 1000000"

definition zipf_s :: number where
  "zipf_s = Fin 0.78"

definition breachedEntropyCap :: number where
  "breachedEntropyCap = Fin 25.0"

definition frequency :: "number \<Rightarrow> number" where
  "frequency breachCount = Math_min breachCount zipf_C"

definition rank :: "number \<Rightarrow> number" where
  "rank breachCount =
     Math_max (Fin 1) (Math_pow (js_div zipf_C (frequency breachCount)) (js_div (Fin 1) zipf_s))"

definition penalizedEntropy :: "number \<Rightarrow> number" where
  "penalizedEntropy breachCount = Math_log2 (rank breachCount)"

definition calculatePenalizedEntropy :: "number \<Rightarrow> number \<Rightarrow> PenalizedEntropyResult" where
  "calculatePenalizedEntropy originalEntropy breachCount =
     (if js_eq breachCount (Fin 0)
      then \<lparr>entropy = originalEntropy, isPenalized = False\<rparr>
      else
        let finalEntropy =
              Math_min3 originalEntropy (penalizedEntropy breachCount) breachedEntropyCap
        in \<lparr>entropy = finalEntropy, isPenalized = js_gt breachCount (Fin 0)\<rparr>)"

text \<open>
  The penalty as the specification words it, over the reals: the breach count is a
  non-negative count and the entropy a real number of bits.
\<close>

definition applyBreachPenalty :: "real \<Rightarrow> real \<Rightarrow> real \<times> bool" where
  "applyBreachPenalty originalEntropy breachCount =
     (if breachCount = 0 then (originalEntropy, False)
      else
        let C = 1000000;
            s = 0.78;
            freq = min breachCount C;
            rnk = max 1 ((C / freq) powr (1 / s));
            penalized = log 2 rnk;
            finalEntropy = min originalEntropy (min penalized 25.0)
        in (finalEntropy, True))"

text \<open>The rank that the formula gives at a breach count of one, \<open>10^6 ^ (1 / 0.78)\<close>.\<close>

definition rank1 :: real where
  "rank1 = 1000000 powr (50 / 39)"

section \<open>Crack time\<close>

text \<open>
  The table \<open>hashRates\<close> is an object literal. Reading \<open>hashRates[hashKey]\<close> yields the
  rate of an own key, \<open>undefined\<close> for a key the object does not have, and for the
  member names of \<open>Object.prototype\<close> the inherited function or object.
\<close>

definition hashRates :: "(string \<times> real) list" where
  "hashRates =
     [(''none'', 1000000000000),
      (''md5'', 220600000000),
      (''sha1'', 70200000000),
      (''sha512'', 10000000000),
      (''pbkdf2'', 36000),
      (''bcrypt'', 9500),
      (''scrypt'', 7760),
      (''argon2id'', 2200)]"

definition Object_prototype_keys :: "string list" where
  "Object_prototype_keys =
     [''constructor'', ''hasOwnProperty'', ''isPrototypeOf'', ''propertyIsEnumerable'',
      ''toLocaleString'', ''toString'', ''valueOf'', ''__proto__'',
      ''__defineGetter__'', ''__defineSetter__'', ''__lookupGetter__'', ''__lookupSetter__'']"

datatype property = Absent | Rate real | Inherited

definition hashRates_get :: "string \<Rightarrow> property" where
  "hashRates_get key =
     (case map_of hashRates key of
        Some r \<Rightarrow> Rate r
      | None \<Rightarrow> if key \<in> set Object_prototype_keys then Inherited else Absent)"

text \<open>
  \<open>a || b\<close> is \<open>a\<close> when \<open>a\<close> is truthy: \<open>undefined\<close> and the number zero are falsy,
  an object is truthy. In arithmetic a function or object converts to \<open>NaN\<close>, and so
  does \<open>undefined\<close>.
\<close>

definition js_or :: "property \<Rightarrow> property \<Rightarrow> property" where
  "js_or a b =
     (case a of Absent \<Rightarrow> b | Rate r \<Rightarrow> (if r = 0 then b else a) | Inherited \<Rightarrow> a)"

fun property_ToNumber :: "property \<Rightarrow> number" where
  "property_ToNumber (Rate r) = Fin r"
| "property_ToNumber Inherited = NaN"
| "property_ToNumber Absent = NaN"

text \<open>
  An argument that may be missing is a \<open>number option\<close>, \<open>None\<close> for \<open>undefined\<close>
  (the parameter \<open>entropy\<close> is written \<open>ent\<close>, the name being taken by the record field).
  \<open>undefined === 0\<close> is false, and \<open>Math.pow\<close> converts \<open>undefined\<close> to \<open>NaN\<close>.
\<close>

fun ToNumber :: "number option \<Rightarrow> number" where
  "ToNumber None = NaN"
| "ToNumber (Some n) = n"

fun js_strict_eq :: "number option \<Rightarrow> number \<Rightarrow> bool" where
  "js_strict_eq None _ = False"
| "js_strict_eq (Some a) b = js_eq a b"

definition calculateCrackTime :: "number option \<Rightarrow> string \<Rightarrow> number \<Rightarrow> number" where
  "calculateCrackTime ent hashKey gpuCount =
     (if js_strict_eq ent (Fin 0) then Fin 0
      else
        let hashRate = js_or (hashRates_get hashKey) (hashRates_get ''sha512'');
            totalHashesPerSecond = js_mul (property_ToNumber hashRate) gpuCount;
            totalCombinations = Math_pow (Fin 2) (ToNumber ent);
            averageAttempts = js_div totalCombinations (Fin 2)
        in js_div averageAttempts totalHashesPerSecond)"

text \<open>
  The crack time as the specification words it, over the reals, for a rate table
  whose unknown keys fall back to the \<open>sha512\<close> profile.
\<close>

definition referenceRate :: "string \<Rightarrow> real" where
  "referenceRate hashProfileKey =
     (case map_of hashRates hashProfileKey of Some r \<Rightarrow> r | None \<Rightarrow> 10000000000)"

definition crackTimeSeconds :: "real \<Rightarrow> string \<Rightarrow> real \<Rightarrow> real" where
  "crackTimeSeconds e hashProfileKey unitCount =
     (if e = 0 then 0
      else
        let totalCombinations = 2 powr e;
            averageAttempts = totalCombinations / 2;
            throughput = referenceRate hashProfileKey * unitCount
        in averageAttempts / throughput)"

section \<open>Tiers and labels\<close>

text \<open>
  \<open>getCrackTimeTier\<close> of the current revision (thresholds of a day, a year,
  \<open>3.1557e11\<close> and \<open>3.1557e16\<close> seconds).
\<close>

definition getCrackTimeTier :: "number \<Rightarrow> string" where
  "getCrackTimeTier seconds =
     (if js_lt seconds (Fin (60 * 60 * 24)) then ''tier-1''
      else if js_lt seconds (Fin 31557600) then ''tier-2''
      else if js_lt seconds (Fin 315570000000) then ''tier-3''
      else if js_lt seconds (Fin 31557000000000000) then ''tier-4''
      else ''tier-5'')"

text \<open>
  \<open>getCrackTimeTier\<close> of the earlier revision in \<open>src/lib/calculations.ts\<close>
  (thresholds of ten minutes, a year, \<open>3.1557e12\<close> and \<open>3.1557e17\<close> seconds).
\<close>

definition getCrackTimeTier_v1 :: "number \<Rightarrow> string" where
  "getCrackTimeTier_v1 seconds =
     (if js_lt seconds (Fin 600) then ''tier-1''
      else if js_lt seconds (Fin 31557600) then ''tier-2''
      else if js_lt seconds (Fin 3155700000000) then ''tier-3''
      else if js_lt seconds (Fin 315570000000000000) then ''tier-4''
      else ''tier-5'')"

text \<open>
  \<open>getStrengthLabel\<close> and \<open>getStrengthTier\<close> of the current revision; the argument is
  optional.
\<close>

definition getStrengthLabel :: "number option \<Rightarrow> string" where
  "getStrengthLabel ent =
     (case ent of
        None \<Rightarrow> ''-''
      | Some e \<Rightarrow>
          if js_lt e (Fin 28) then ''Very Weak''
          else if js_lt e (Fin 36) then ''Weak''
          else if js_lt e (Fin 60) then ''Moderate''
          else if js_lt e (Fin 80) then ''Strong''
          else if js_lt e (Fin 100) then ''Very Strong''
          else ''Excellent'')"

definition getStrengthTier :: "number option \<Rightarrow> string" where
  "getStrengthTier ent =
     (case ent of
        None \<Rightarrow> []
      | Some e \<Rightarrow>
          if js_lt e (Fin 28) then ''tier-2''
          else if js_lt e (Fin 36) then ''tier-2''
          else if js_lt e (Fin 60) then ''tier-3''
          else if js_lt e (Fin 80) then ''tier-5''
          else ''tier-5'')"

text \<open>
  The same two functions in the earlier revision in \<open>src/lib/calculations.ts\<close>: the
  argument is a number, and zero has a label of its own.
\<close>

definition getStrengthLabel_v1 :: "number \<Rightarrow> string" where
  "getStrengthLabel_v1 e =
     (if js_eq e (Fin 0) then ''None''
      else if js_lt e (Fin 28) then ''Very Weak''
      else if js_lt e (Fin 36) then ''Weak''
      else if js_lt e (Fin 60) then ''Moderate''
      else if js_lt e (Fin 80) then ''Strong''
      else if js_lt e (Fin 100) then ''Very Strong''
      else ''Excellent'')"

definition getStrengthTier_v1 :: "number \<Rightarrow> string" where
  "getStrengthTier_v1 e =
     (if js_eq e (Fin 0) then []
      else if js_lt e (Fin 28) then ''tier-1''
      else if js_lt e (Fin 36) then ''tier-2''
      else if js_lt e (Fin 60) then ''tier-3''
      else if js_lt e (Fin 80) then ''tier-4''
      else ''tier-5'')"

text \<open>
  The ordered scales the results are read on: the position of a label in the scale,
  and the length of the scale for a string that is not on it.
\<close>

fun position :: "string list \<Rightarrow> string \<Rightarrow> nat" where
  "position [] s = 0"
| "position (x # xs) s = (if x = s then 0 else Suc (position xs s))"

definition strengthLabels :: "string list" where
  "strengthLabels =
     [''None'', ''Very Weak'', ''Weak'', ''Moderate'', ''Strong'', ''Very Strong'', ''Excellent'']"

definition tiers :: "string list" where
  "tiers = [''tier-1'', ''tier-2'', ''tier-3'', ''tier-4'', ''tier-5'']"

definition labelRank :: "string \<Rightarrow> nat" where
  "labelRank s = position strengthLabels s"

definition tierRank :: "string \<Rightarrow> nat" where
  "tierRank s = position tiers s"

section \<open>Formatting a duration\<close>

text \<open>
  Printing a number. \<open>showNat\<close> writes a natural number in decimal digits.
  \<open>number_toString\<close> is the conversion a template literal applies; the code applies it
  to results of \<open>Math.round\<close> only, and for an integral value below \<open>10^21\<close> it prints
  the plain digits. \<open>toFixed0\<close> is \<open>toFixed(0)\<close> and \<open>toFixed1\<close> is \<open>toFixed(1)\<close>: the
  nearest value with that many decimals, the larger one at a tie, below \<open>10^21\<close>.
\<close>

fun showNat :: "nat \<Rightarrow> string" where
  "showNat n =
     (if n < 10 then [''0123456789'' ! n]
      else showNat (n div 10) @ [''0123456789'' ! (n mod 10)])"

declare showNat.simps [simp del]

fun Math_round :: "number \<Rightarrow> number" where
  "Math_round (Fin x) = Fin (of_int \<lfloor>x + 1 / 2\<rfloor>)"
| "Math_round n = n"

fun number_toString :: "number \<Rightarrow> string" where
  "number_toString NaN = ''NaN''"
| "number_toString PosInf = ''Infinity''"
| "number_toString NegInf = ''-Infinity''"
| "number_toString (Fin x) =
     (if x < 0 then ''-'' @ showNat (nat \<lfloor>- x\<rfloor>) else showNat (nat \<lfloor>x\<rfloor>))"

fun toFixed0 :: "number \<Rightarrow> string" where
  "toFixed0 NaN = ''NaN''"
| "toFixed0 PosInf = ''Infinity''"
| "toFixed0 NegInf = ''-Infinity''"
| "toFixed0 (Fin x) =
     (if x < 0 then ''-'' @ showNat (nat \<lfloor>- x + 1 / 2\<rfloor>) else showNat (nat \<lfloor>x + 1 / 2\<rfloor>))"

definition showTenths :: "nat \<Rightarrow> string" where
  "showTenths n = showNat (n div 10) @ ''.'' @ showNat (n mod 10)"

fun toFixed1 :: "number \<Rightarrow> string" where
  "toFixed1 NaN = ''NaN''"
| "toFixed1 PosInf = ''Infinity''"
| "toFixed1 NegInf = ''-Infinity''"
| "toFixed1 (Fin x) =
     (if x < 0 then ''-'' @ showTenths (nat \<lfloor>- x * 10 + 1 / 2\<rfloor>)
      else showTenths (nat \<lfloor>x * 10 + 1 / 2\<rfloor>))"

text \<open>The sign \<open>U+221E\<close> that stands for an unbounded time, as its three bytes in UTF-8.\<close>

definition infinity_sign :: string where
  "infinity_sign = [CHR 0xE2, CHR 0x88, CHR 0x9E]"

text \<open>\<open>formatCrackTime\<close> of the current revision.\<close>

definition formatCrackTime :: "number \<Rightarrow> string" where
  "formatCrackTime seconds =
     (if js_lt seconds (Fin 60) then ''Instant''
      else
        let minutes = js_div seconds (Fin 60) in
        if js_lt minutes (Fin 60) then number_toString (Math_round minutes) @ '' min''
        else
          let hours = js_div minutes (Fin 60) in
          if js_lt hours (Fin 24) then number_toString (Math_round hours) @ '' hrs''
          else
            let days = js_div hours (Fin 24) in
            if js_lt days (Fin 30) then number_toString (Math_round days) @ '' days''
            else
              let months = js_div days (Fin 30) in
              if js_lt months (Fin 12) then number_toString (Math_round months) @ '' mo''
              else
                let years = js_div days (Fin 365.25) in
                if js_lt years (Fin 1000) then number_toString (Math_round years) @ '' yrs''
                else if js_lt years (Fin 1000000)
                  then toFixed0 (js_div years (Fin 1000)) @ ''k yrs''
                else if js_lt years (Fin 1000000000)
                  then toFixed0 (js_div years (Fin 1000000)) @ ''M yrs''
                else if js_lt years (Fin 1000000000000)
                  then toFixed0 (js_div years (Fin 1000000000)) @ ''B yrs''
                else if js_lt years (Fin 1000000000000000)
                  then toFixed0 (js_div years (Fin 1000000000000)) @ ''T yrs''
                else infinity_sign)"

text \<open>
  \<open>formatCrackTime\<close> of the earlier revision in \<open>src/lib/calculations.ts\<close>: it prints
  seconds, and one decimal above a thousand years.
\<close>

definition formatCrackTime_v1 :: "number \<Rightarrow> string" where
  "formatCrackTime_v1 seconds =
     (if js_eq seconds (Fin 0) then ''Instant''
      else if js_lt seconds (Fin 0.001) then ''Instant''
      else if js_lt seconds (Fin 1) then ''<1 sec''
      else if js_lt seconds (Fin 60) then number_toString (Math_round seconds) @ '' sec''
      else
        let minutes = js_div seconds (Fin 60) in
        if js_lt minutes (Fin 60) then number_toString (Math_round minutes) @ '' min''
        else
          let hours = js_div minutes (Fin 60) in
          if js_lt hours (Fin 24) then number_toString (Math_round hours) @ '' hrs''
          else
            let days = js_div hours (Fin 24) in
            if js_lt days (Fin 30) then number_toString (Math_round days) @ '' days''
            else
              let months = js_div days (Fin 30) in
              if js_lt months (Fin 12) then number_toString (Math_round months) @ '' mo''
              else
                let years = js_div days (Fin 365.25) in
                if js_lt years (Fin 1000) then number_toString (Math_round years) @ '' yrs''
                else if js_lt years (Fin 1000000)
                  then toFixed1 (js_div years (Fin 1000)) @ ''k yrs''
                else if js_lt years (Fin 1000000000)
                  then toFixed1 (js_div years (Fin 1000000)) @ ''M yrs''
                else if js_lt years (Fin 1000000000000)
                  then toFixed1 (js_div years (Fin 1000000000)) @ ''B yrs''
                else if js_lt years (Fin 1000000000000000)
                  then toFixed1 (js_div years (Fin 1000000000000)) @ ''T yrs''
                else infinity_sign)"

section \<open>Base entropy\<close>

text \<open>
  \<open>calculateEntropy\<close> of the current revision. The pattern estimator \<open>zxcvbn\<close> is a
  library outside the repository: the function takes as a parameter what the estimator
  answers for a password, the field \<open>guessesLog10\<close> of its result. The result is
  \<open>None\<close> for \<open>undefined\<close>.
\<close>

definition calculateEntropy :: "(string \<Rightarrow> number) \<Rightarrow> string \<Rightarrow> number option" where
  "calculateEntropy guessesLog10 password =
     (if length password = 0 then None
      else Some (js_mul (guessesLog10 password) (Math_log2 (Fin 10))))"

text \<open>
  \<open>analyzePassword\<close> and \<open>calculateEntropy\<close> of the earlier revision in
  \<open>src/lib/calculations.ts\<close>, which counts character classes. A character is a byte
  here; one outside the letters, digits and the space counts as a symbol, as the
  regular expression \<open>[^a-zA-Z0-9 ]\<close> has it.
\<close>

definition in_range :: "char \<Rightarrow> char \<Rightarrow> char \<Rightarrow> bool" where
  "in_range lo hi c = ((of_char lo :: nat) \<le> of_char c \<and> (of_char c :: nat) \<le> of_char hi)"

record PasswordAnalysis =
  hasLowercase :: bool
  hasUppercase :: bool
  hasDigits :: bool
  hasSymbols :: bool
  hasSpace :: bool
  charsetSize :: nat
  len :: nat

definition analyzePassword :: "string \<Rightarrow> PasswordAnalysis" where
  "analyzePassword password =
     (let lower = list_ex (in_range CHR ''a'' CHR ''z'') password;
          upper = list_ex (in_range CHR ''A'' CHR ''Z'') password;
          digit = list_ex (in_range CHR ''0'' CHR ''9'') password;
          space = list_ex (\<lambda>c. c = CHR '' '') password;
          symbol = list_ex (\<lambda>c. \<not> (in_range CHR ''a'' CHR ''z'' c \<or> in_range CHR ''A'' CHR ''Z'' c
                                 \<or> in_range CHR ''0'' CHR ''9'' c \<or> c = CHR '' '')) password;
          size = (if lower then 26 else 0) + (if upper then 26 else 0) + (if digit then 10 else 0)
                 + (if symbol then 32 else 0) + (if space then 1 else 0)
      in \<lparr>hasLowercase = lower, hasUppercase = upper, hasDigits = digit, hasSymbols = symbol,
          hasSpace = space, charsetSize = size, len = length password\<rparr>)"

definition calculateEntropy_v1 :: "string \<Rightarrow> number" where
  "calculateEntropy_v1 password =
     (if length password = 0 then Fin 0
      else
        let analysis = analyzePassword password in
        if charsetSize analysis = 0 then Fin 0
        else js_mul (Fin (real (len analysis))) (Math_log2 (Fin (real (charsetSize analysis)))))"

section \<open>Breach lookup\<close>

text \<open>
  The lookup talks to a remote service. What the service and the network do is a value:
  \<open>fetch\<close> either rejects (a network error, or the request was aborted through its
  signal) or resolves to a response with its \<open>ok\<close> flag, whose \<open>text()\<close> in turn
  rejects or resolves to the body. A rejected promise of the code is \<open>Inl\<close>.
\<close>

datatype rejection = NetworkError | AbortError | HashUnavailable

datatype body = TextRejects rejection | TextResolves string

datatype fetch_outcome = FetchRejects rejection | Responds bool body

text \<open>
  \<open>s.split(sep)\<close> for a non-empty separator: the pieces between the occurrences of
  \<open>sep\<close>, scanned from the left; a string without the separator is its only piece.
\<close>

function js_split_from :: "string \<Rightarrow> string \<Rightarrow> string \<Rightarrow> string list" where
  "js_split_from sep piece s =
     (if s = [] then [rev piece]
      else if sep \<noteq> [] \<and> take (length sep) s = sep
        then rev piece # js_split_from sep [] (drop (length sep) s)
      else js_split_from sep (hd s # piece) (tl s))"
  by pat_completeness auto
termination
  by (relation "measure (\<lambda>(sep, piece, s). length s)") auto

declare js_split_from.simps [simp del]

definition js_split :: "string \<Rightarrow> string \<Rightarrow> string list" where
  "js_split sep s = js_split_from sep [] s"

text \<open>
  \<open>parseInt(x, 10)\<close>: \<open>undefined\<close> reads as the string \<open>undefined\<close>; leading white space
  is skipped, a sign is read, and the longest run of decimal digits that follows is the
  value (an infinity when the digits go beyond the range of a double); with no digit
  there the result is \<open>NaN\<close>.
\<close>

definition is_space :: "char \<Rightarrow> bool" where
  "is_space c = ((of_char c :: nat) \<in> {9, 10, 11, 12, 13, 32})"

definition is_digit :: "char \<Rightarrow> bool" where
  "is_digit c = in_range CHR ''0'' CHR ''9'' c"

definition digits_value :: "string \<Rightarrow> nat" where
  "digits_value ds = foldl (\<lambda>acc c. 10 * acc + (of_char c - 48)) 0 ds"

definition parseInt10 :: "string option \<Rightarrow> number" where
  "parseInt10 x =
     (let s = dropWhile is_space (case x of None \<Rightarrow> ''undefined'' | Some t \<Rightarrow> t);
          negative = (s \<noteq> [] \<and> hd s = CHR ''-'');
          unsigned = (if s \<noteq> [] \<and> (hd s = CHR ''-'' \<or> hd s = CHR ''+'') then tl s else s);
          ds = takeWhile is_digit unsigned
      in if ds = [] then NaN
         else if negative then double_of (- real (digits_value ds))
         else double_of (real (digits_value ds)))"

text \<open>
  The loop of \<open>queryHIBPRange\<close> over the lines of the body: the first line whose first
  field is the suffix decides, and its second field (\<open>undefined\<close> when the line has no
  colon) is parsed. \<open>None\<close> when the loop runs to its end.
\<close>

fun findCount :: "string list \<Rightarrow> string \<Rightarrow> number option" where
  "findCount [] suffix = None"
| "findCount (line # rest) suffix =
     (let parts = js_split '':'' line;
          lineSuffix = hd parts;
          count = (if 1 < length parts then Some (parts ! 1) else None)
      in if lineSuffix = suffix then Some (parseInt10 count) else findCount rest suffix)"

definition range_url :: "string \<Rightarrow> string" where
  "range_url prefix = ''https://api.pwnedpasswords.com/range/'' @ prefix"

definition queryHIBPRange :: "(string \<Rightarrow> fetch_outcome) \<Rightarrow> string \<Rightarrow> string \<Rightarrow> number" where
  "queryHIBPRange fetch prefix suffix =
     (case fetch (range_url prefix) of
        FetchRejects _ \<Rightarrow> Fin 0
      | Responds ok b \<Rightarrow>
          (if \<not> ok then Fin 0
           else (case b of
              TextRejects _ \<Rightarrow> Fin 0
            | TextResolves text \<Rightarrow>
                (case findCount (js_split [CHR 0x0D, CHR 0x0A] text) suffix of
                   Some n \<Rightarrow> n
                 | None \<Rightarrow> Fin 0))))"

text \<open>
  \<open>checkHIBP\<close>. The digest \<open>sha1Hash\<close> is computed by the platform and is a parameter:
  it resolves to the digest in upper-case hexadecimal, or rejects. That call is outside
  any \<open>try\<close>, so its rejection is the rejection of \<open>checkHIBP\<close>.
\<close>

definition checkHIBP ::
  "(string \<Rightarrow> rejection + string) \<Rightarrow> (string \<Rightarrow> fetch_outcome) \<Rightarrow> string \<Rightarrow> rejection + number" where
  "checkHIBP sha1Hash fetch password =
     (if length password = 0 then Inr (Fin 0)
      else case sha1Hash password of
        Inl r \<Rightarrow> Inl r
      | Inr hashHex \<Rightarrow>
          let prefix = take 5 hashHex;
              suffix = drop 5 hashHex
          in Inr (queryHIBPRange fetch prefix suffix))"

section \<open>Properties of the range of a double\<close>

lemma double_of_in_range:
  "1 / 2 ^ 1075 < \<bar>x\<bar> \<Longrightarrow> \<bar>x\<bar> < 2 ^ 1024 \<Longrightarrow> double_of x = Fin x"
  by (auto simp: double_of_def)

lemma double_of_ge_one:
  "1 \<le> x \<Longrightarrow> double_of x = (if 2 ^ 1024 \<le> x then PosInf else Fin x)"
proof -
  assume x: "1 \<le> x"
  have "(1::real) / 2 ^ 1075 < 1" by simp
  with x have "\<not> \<bar>x\<bar> \<le> 1 / 2 ^ 1075" by linarith
  moreover from x have "\<not> x \<le> - (2 ^ 1024)" by simp
  ultimately show ?thesis by (simp add: double_of_def)
qed

section \<open>Properties of the breach penalty\<close>

text \<open>
  For a count above zero the quotient \<open>C / frequency\<close> and its power are at least 1.
  Either may exceed the range of a double, for a count close to zero, and then the rank
  is infinite.
\<close>

lemma zipf_quotient_ge_one: "0 < n \<Longrightarrow> 1 \<le> 1000000 / min n (1000000::real)"
  by (simp add: min_def)

lemma zipf_power_ge_quotient:
  assumes "0 < n"
  shows "1000000 / min n 1000000 \<le> (1000000 / min n (1000000::real)) powr (1 / 0.78)"
proof -
  define q where "q = 1000000 / min n (1000000::real)"
  have q: "1 \<le> q" unfolding q_def using assms by (rule zipf_quotient_ge_one)
  then have "q powr 1 \<le> q powr (1 / 0.78)"
    by (intro powr_mono) simp_all
  moreover have "q powr 1 = q"
    using q by (intro powr_one) simp
  ultimately show ?thesis unfolding q_def by simp
qed

lemma rank_Fin:
  assumes "0 < n"
  shows "rank (Fin n) =
     (if 2 ^ 1024 \<le> (1000000 / min n 1000000) powr (1 / 0.78) then PosInf
      else Fin (max 1 ((1000000 / min n 1000000) powr (1 / 0.78))))"
proof -
  define q where "q = 1000000 / min n (1000000::real)"
  define r where "r = q powr (1 / 0.78)"
  have q: "1 \<le> q" unfolding q_def using assms by (rule zipf_quotient_ge_one)
  have qr: "q \<le> r" unfolding r_def q_def using assms by (rule zipf_power_ge_quotient)
  have r: "1 \<le> r" using q qr by linarith
  have f: "frequency (Fin n) = Fin (min n 1000000)"
    by (auto simp: frequency_def zipf_C_def Math_min_def min_def)
  have m: "min n (1000000::real) \<noteq> 0" using assms by (simp add: min_def)
  have "js_div zipf_C (frequency (Fin n)) = double_of q"
    using m by (simp add: f zipf_C_def q_def)
  then have d: "js_div zipf_C (frequency (Fin n)) = (if 2 ^ 1024 \<le> q then PosInf else Fin q)"
    by (simp only: double_of_ge_one [OF q])
  have s: "js_div (Fin 1) zipf_s = Fin (1 / 0.78)"
    by (simp add: zipf_s_def double_of_def)
  have "rank (Fin n) = (if 2 ^ 1024 \<le> r then PosInf else Fin (max 1 r))"
  proof (cases "2 ^ 1024 \<le> q")
    case True
    with qr have big: "2 ^ 1024 \<le> r" by linarith
    from True have "js_div zipf_C (frequency (Fin n)) = PosInf"
      by (simp only: d if_True)
    then have "rank (Fin n) = Math_max (Fin 1) (Math_pow PosInf (Fin (1 / 0.78)))"
      by (simp only: rank_def s)
    also have "\<dots> = PosInf" by (simp add: Math_max_def)
    finally show ?thesis using big by (simp only: if_True)
  next
    case False
    then have "js_div zipf_C (frequency (Fin n)) = Fin q"
      by (simp only: d if_False)
    then have e: "rank (Fin n) = Math_max (Fin 1) (Math_pow (Fin q) (Fin (1 / 0.78)))"
      by (simp only: rank_def s)
    have "0 < q" using q by linarith
    then have "Math_pow (Fin q) (Fin (1 / 0.78)) = double_of r"
      by (simp add: r_def)
    then have p: "Math_pow (Fin q) (Fin (1 / 0.78)) = (if 2 ^ 1024 \<le> r then PosInf else Fin r)"
      by (simp only: double_of_ge_one [OF r])
    show ?thesis
    proof (cases "2 ^ 1024 \<le> r")
      case True
      then have "Math_pow (Fin q) (Fin (1 / 0.78)) = PosInf" by (simp only: p if_True)
      then have "rank (Fin n) = Math_max (Fin 1) PosInf" by (simp only: e)
      also have "\<dots> = PosInf" by (simp add: Math_max_def)
      finally show ?thesis using True by (simp only: if_True)
    next
      case False
      then have "Math_pow (Fin q) (Fin (1 / 0.78)) = Fin r" by (simp only: p if_False)
      then have "rank (Fin n) = Math_max (Fin 1) (Fin r)" by (simp only: e)
      also have "\<dots> = Fin (max 1 r)" using r by (simp add: Math_max_def max_def)
      finally show ?thesis using False by (simp only: if_False)
    qed
  qed
  then show ?thesis unfolding r_def q_def .
qed

lemma penalizedEntropy_Fin:
  assumes "0 < n"
  shows "penalizedEntropy (Fin n) =
     (if 2 ^ 1024 \<le> (1000000 / min n 1000000) powr (1 / 0.78) then PosInf
      else Fin (log 2 (max 1 ((1000000 / min n 1000000) powr (1 / 0.78)))))"
  by (simp add: penalizedEntropy_def rank_Fin [OF assms] max_def)

lemma log2_beyond_range: "2 ^ 1024 \<le> x \<Longrightarrow> 25 < log 2 (max 1 x)"
proof -
  assume x: "(2::real) ^ 1024 \<le> x"
  have "(1::real) \<le> 2 ^ 1024" by simp
  with x have m: "max 1 x = x" by simp
  have "log 2 ((2::real) ^ 1024) \<le> log 2 x"
    using x by (subst log_le_cancel_iff) simp_all
  moreover have "log 2 ((2::real) ^ 1024) = real 1024"
    by (rule log_pow_cancel) simp_all
  ultimately show ?thesis by (simp add: m)
qed

lemma calculatePenalizedEntropy_Fin:
  assumes "0 < n"
  shows "calculatePenalizedEntropy (Fin e) (Fin n) =
     \<lparr>entropy = Fin (min e (min (log 2 (max 1 ((1000000 / min n 1000000) powr (1 / 0.78)))) 25)),
      isPenalized = True\<rparr>"
proof (cases "2 ^ 1024 \<le> (1000000 / min n 1000000) powr (1 / 0.78)")
  case True
  from log2_beyond_range [OF True] True assms show ?thesis
    by (simp add: calculatePenalizedEntropy_def penalizedEntropy_Fin breachedEntropyCap_def
        Math_min3_def Math_min_def js_gt_def Let_def min_def)
next
  case False
  with assms show ?thesis
    by (auto simp: calculatePenalizedEntropy_def penalizedEntropy_Fin breachedEntropyCap_def
        Math_min3_def Math_min_def js_gt_def Let_def min_def)
qed

lemma calculatePenalizedEntropy_zero:
  "calculatePenalizedEntropy e (Fin 0) = \<lparr>entropy = e, isPenalized = False\<rparr>"
  by (simp add: calculatePenalizedEntropy_def)

text \<open>
  A negative count is outside the contract. The code does not reject it: the power of a
  negative base is \<open>NaN\<close>, which becomes the entropy, and the flag is false.
\<close>

lemma calculatePenalizedEntropy_negative:
  "calculatePenalizedEntropy (Fin 40) (Fin (- 1)) = \<lparr>entropy = NaN, isPenalized = False\<rparr>"
  by (simp add: calculatePenalizedEntropy_def penalizedEntropy_def rank_def frequency_def
      zipf_C_def zipf_s_def breachedEntropyCap_def Math_min3_def Math_min_def Math_max_def
      js_gt_def is_integer_def double_of_def)

text \<open>
  C1. For every original entropy \<open>e\<close> and every breach count \<open>n \<ge> 0\<close>, the code returns
  what the specification's \<open>applyBreachPenalty\<close> prescribes: \<open>(e, false)\<close> at \<open>n = 0\<close>,
  and otherwise the minimum of \<open>e\<close>, of \<open>log2 (max 1 ((C / min n C) ^ (1 / s)))\<close> and of
  25, with the flag true.
\<close>

theorem calculatePenalizedEntropy_postcondition:
  "0 \<le> n \<Longrightarrow>
   calculatePenalizedEntropy (Fin e) (Fin n) =
     \<lparr>entropy = Fin (fst (applyBreachPenalty e n)), isPenalized = snd (applyBreachPenalty e n)\<rparr>"
proof (cases "n = 0")
  case True
  then show ?thesis
    by (simp add: calculatePenalizedEntropy_zero applyBreachPenalty_def)
next
  case False
  assume "0 \<le> n"
  with False have "0 < n" by simp
  then show ?thesis
    using False by (simp add: calculatePenalizedEntropy_Fin applyBreachPenalty_def Let_def)
qed

theorem calculatePenalizedEntropy_postcondition_witness:
  "(0::real) \<le> 1000000 \<and>
   calculatePenalizedEntropy (Fin 30) (Fin 1000000) = \<lparr>entropy = Fin 0, isPenalized = True\<rparr>"
  using calculatePenalizedEntropy_postcondition [of 1000000 30]
  by (simp add: applyBreachPenalty_def)

text \<open>
  C2. For a non-negative original entropy \<open>e\<close> and a breach count \<open>n > 0\<close>, the returned
  entropy is a finite number between 0 and \<open>e\<close>, and at most 25.
\<close>

theorem calculatePenalizedEntropy_bounds:
  "0 \<le> e \<Longrightarrow> 0 < n \<Longrightarrow>
   \<exists>x. entropy (calculatePenalizedEntropy (Fin e) (Fin n)) = Fin x \<and> 0 \<le> x \<and> x \<le> e \<and> x \<le> 25"
  by (simp add: calculatePenalizedEntropy_Fin)

theorem calculatePenalizedEntropy_bounds_witness:
  "(0::real) \<le> 30 \<and> (0::real) < 1000000 \<and>
   (\<exists>x. entropy (calculatePenalizedEntropy (Fin 30) (Fin 1000000)) = Fin x
        \<and> 0 \<le> x \<and> x \<le> 30 \<and> x \<le> 25)"
  using calculatePenalizedEntropy_bounds [of 30 1000000] by simp

subsection \<open>A single occurrence\<close>

lemma rank1_pow: "rank1 ^ 39 = 10 ^ 300"
proof -
  have "rank1 ^ 39 = 1000000 powr (of_nat 39 * (50 / 39))"
    unfolding rank1_def by (rule powr_power) simp
  also have "\<dots> = 1000000 powr 50" by simp
  also have "\<dots> = 10 ^ 300" by simp
  finally show ?thesis .
qed

lemma rank1_lower: "49000000 < rank1"
proof (rule ccontr)
  assume "\<not> 49000000 < rank1"
  then have "rank1 \<le> 49000000" by simp
  moreover have "0 \<le> rank1" by (simp add: rank1_def)
  ultimately have "rank1 ^ 39 \<le> 49000000 ^ 39" by (rule power_mono)
  then show False by (simp add: rank1_pow)
qed

lemma rank1_upper: "rank1 < 49300000"
proof (rule ccontr)
  assume "\<not> rank1 < 49300000"
  then have "(49300000::real) \<le> rank1" by simp
  then have "(49300000::real) ^ 39 \<le> rank1 ^ 39" by (rule power_mono) simp
  then show False by (simp add: rank1_pow)
qed

lemma two_powr_93_28: "((2::real) powr (93 / 28)) ^ 28 = 2 ^ 93"
proof -
  have "((2::real) powr (93 / 28)) ^ 28 = 2 powr (of_nat 28 * (93 / 28))"
    by (rule powr_power) simp
  also have "\<dots> = 2 powr 93" by simp
  also have "\<dots> = 2 ^ 93" by simp
  finally show ?thesis .
qed

lemma two_powr_103_31: "((2::real) powr (103 / 31)) ^ 31 = 2 ^ 103"
proof -
  have "((2::real) powr (103 / 31)) ^ 31 = 2 powr (of_nat 31 * (103 / 31))"
    by (rule powr_power) simp
  also have "\<dots> = 2 powr 103" by simp
  also have "\<dots> = 2 ^ 103" by simp
  finally show ?thesis .
qed

text \<open>The binary logarithm of ten lies between \<open>93/28\<close> and \<open>103/31\<close>.\<close>

lemma log2_10_lower: "93 / 28 < log 2 (10::real)"
proof -
  have "(2::real) powr (93 / 28) < 10"
  proof (rule ccontr)
    assume "\<not> (2::real) powr (93 / 28) < 10"
    then have "(10::real) \<le> 2 powr (93 / 28)" by simp
    then have "(10::real) ^ 28 \<le> (2 powr (93 / 28)) ^ 28" by (rule power_mono) simp
    then show False by (simp only: two_powr_93_28) simp
  qed
  moreover have "93 / 28 < log 2 (10::real) \<longleftrightarrow> 2 powr (93 / 28) < (10::real)"
    by (rule less_log_iff) simp_all
  ultimately show ?thesis by blast
qed

lemma log2_10_upper: "log 2 (10::real) < 103 / 31"
proof -
  have "10 < (2::real) powr (103 / 31)"
  proof (rule ccontr)
    assume "\<not> 10 < (2::real) powr (103 / 31)"
    then have "(2::real) powr (103 / 31) \<le> 10" by simp
    then have "((2::real) powr (103 / 31)) ^ 31 \<le> 10 ^ 31" by (rule power_mono) simp
    then show False by (simp only: two_powr_103_31) simp
  qed
  moreover have "log 2 (10::real) < 103 / 31 \<longleftrightarrow> (10::real) < 2 powr (103 / 31)"
    by (rule log_less_iff) simp_all
  ultimately show ?thesis by blast
qed

lemma log2_rank1: "log 2 rank1 = 100 / 13 * log 2 10"
proof -
  have "log 2 ((10::real) ^ 6) = real 6 * log 2 10"
    by (rule log_nat_power) simp
  then have "log 2 (1000000::real) = 6 * log 2 10" by simp
  then show ?thesis by (simp add: rank1_def log_powr)
qed

lemma log2_rank1_bounds: "25.5 < log 2 rank1 \<and> log 2 rank1 < 25.6"
  using log2_10_lower log2_10_upper by (simp add: log2_rank1)

lemma rank_one: "rank (Fin 1) = Fin rank1"
proof -
  have "1 \<le> rank1" using rank1_lower by simp
  moreover have "\<not> 2 ^ 1024 \<le> rank1" using rank1_upper by simp
  ultimately show ?thesis by (simp add: rank_Fin rank1_def max_def)
qed

lemma penalizedEntropy_one: "penalizedEntropy (Fin 1) = Fin (log 2 rank1)"
  using rank1_lower by (simp add: penalizedEntropy_def rank_one)

lemma calculatePenalizedEntropy_one:
  "calculatePenalizedEntropy (Fin e) (Fin 1) =
     \<lparr>entropy = Fin (min e (min (log 2 rank1) 25)), isPenalized = True\<rparr>"
proof -
  have "1 \<le> rank1" using rank1_lower by simp
  then show ?thesis by (simp add: calculatePenalizedEntropy_Fin rank1_def max_def)
qed

text \<open>
  C9. At a breach count of one the rank is \<open>10^6 ^ (1 / 0.78)\<close>, which lies between 49.0
  and 49.3 million (so within 1.3 million, under three per cent, of the 48 million the
  documentation quotes); the penalized entropy lies between 25.5 and 25.6 bits; and for
  an original entropy of at least 25.5 bits the entropy returned is exactly 25.
\<close>

theorem calculatePenalizedEntropy_single_breach:
  "25.5 \<le> e \<Longrightarrow>
   (\<exists>r. rank (Fin 1) = Fin r \<and> 49000000 < r \<and> r < 49300000 \<and> \<bar>r - 48000000\<bar> < 1300000) \<and>
   (\<exists>p. penalizedEntropy (Fin 1) = Fin p \<and> 25.5 < p \<and> p < 25.6) \<and>
   entropy (calculatePenalizedEntropy (Fin e) (Fin 1)) = Fin 25"
proof (intro conjI)
  show "\<exists>r. rank (Fin 1) = Fin r \<and> 49000000 < r \<and> r < 49300000 \<and> \<bar>r - 48000000\<bar> < 1300000"
    using rank1_lower rank1_upper by (simp add: rank_one)
  show "\<exists>p. penalizedEntropy (Fin 1) = Fin p \<and> 25.5 < p \<and> p < 25.6"
    using log2_rank1_bounds by (simp add: penalizedEntropy_one)
  assume "25.5 \<le> e"
  then show "entropy (calculatePenalizedEntropy (Fin e) (Fin 1)) = Fin 25"
    using log2_rank1_bounds by (simp add: calculatePenalizedEntropy_one)
qed

theorem calculatePenalizedEntropy_single_breach_witness:
  "(25.5::real) \<le> 62 \<and> entropy (calculatePenalizedEntropy (Fin 62) (Fin 1)) = Fin 25"
  using calculatePenalizedEntropy_single_breach [of 62] by simp

subsection \<open>The flag\<close>

lemma js_gt_zero_not_eq: "js_gt n (Fin 0) \<Longrightarrow> \<not> js_eq n (Fin 0)"
  by (cases n) (simp_all add: js_gt_def)

text \<open>
  C10. Whenever the breach count is greater than zero the flag \<open>isPenalized\<close> is true,
  also when the original entropy is below both the penalized entropy and the cap, so
  that the entropy returned is the original one: the flag reports that the password
  was found in a breach, not that its entropy was lowered.
\<close>

theorem isPenalized_reports_breach:
  assumes "js_gt breachCount (Fin 0)"
  shows "isPenalized (calculatePenalizedEntropy originalEntropy breachCount) \<and>
         (\<forall>e p. originalEntropy = Fin e \<and> penalizedEntropy breachCount = Fin p \<and> e \<le> p \<and> e \<le> 25
            \<longrightarrow> entropy (calculatePenalizedEntropy originalEntropy breachCount) = originalEntropy)"
  using assms js_gt_zero_not_eq [OF assms]
  by (auto simp: calculatePenalizedEntropy_def Let_def Math_min3_def Math_min_def
      breachedEntropyCap_def)

theorem isPenalized_reports_breach_witness:
  "js_gt (Fin 1) (Fin 0) \<and>
   isPenalized (calculatePenalizedEntropy (Fin 10) (Fin 1)) \<and>
   entropy (calculatePenalizedEntropy (Fin 10) (Fin 1)) = Fin 10"
proof -
  have g: "js_gt (Fin 1) (Fin 0)" by (simp add: js_gt_def)
  have le: "(10::real) \<le> log 2 rank1" using log2_rank1_bounds by simp
  from isPenalized_reports_breach [OF g, of "Fin 10"] penalizedEntropy_one le
  show ?thesis using g by simp
qed

section \<open>Properties of the crack time\<close>

lemma hashRates_bounds: "map_of hashRates k = Some r \<Longrightarrow> 2200 \<le> r \<and> r \<le> 10 ^ 12"
  by (auto simp: hashRates_def split: if_splits)

lemma hashRates_sha512: "hashRates_get ''sha512'' = Rate 10000000000"
  by (simp add: hashRates_get_def hashRates_def)

lemma hashRate_own_key:
  "map_of hashRates k = Some r \<Longrightarrow>
   js_or (hashRates_get k) (hashRates_get ''sha512'') = Rate r"
  using hashRates_bounds [of k r] by (simp add: hashRates_get_def js_or_def)

lemma hashRate_unknown_key:
  "map_of hashRates k = None \<Longrightarrow> k \<notin> set Object_prototype_keys \<Longrightarrow>
   js_or (hashRates_get k) (hashRates_get ''sha512'') = Rate 10000000000"
  by (simp add: hashRates_get_def js_or_def hashRates_sha512 [unfolded hashRates_get_def])

lemma hashRate_referenceRate:
  "k \<notin> set Object_prototype_keys \<Longrightarrow>
   js_or (hashRates_get k) (hashRates_get ''sha512'') = Rate (referenceRate k)"
  by (cases "map_of hashRates k")
     (simp_all add: hashRate_own_key hashRate_unknown_key referenceRate_def)

lemma referenceRate_bounds: "2200 \<le> referenceRate k \<and> referenceRate k \<le> 10 ^ 12"
proof (cases "map_of hashRates k")
  case None
  then show ?thesis by (simp add: referenceRate_def)
next
  case (Some r)
  with hashRates_bounds [OF Some] show ?thesis by (simp add: referenceRate_def)
qed

lemma two_powr_bounds:
  assumes "0 \<le> e" and "e < 1024"
  shows "1 \<le> 2 powr e \<and> 2 powr e < (2::real) ^ 1024"
proof
  show "1 \<le> (2::real) powr e"
    using assms(1) by (intro ge_one_powr_ge_zero) simp_all
  have "(2::real) powr e < 2 powr 1024"
    using assms(2) by (intro powr_less_mono) simp_all
  also have "(2::real) powr 1024 = 2 ^ 1024" by simp
  finally show "2 powr e < (2::real) ^ 1024" .
qed

lemma two_powr_overflow:
  assumes "1024 \<le> e"
  shows "(2::real) ^ 1024 \<le> 2 powr e"
proof -
  have "(2::real) powr 1024 \<le> 2 powr e"
    using assms by (intro powr_mono) simp_all
  moreover have "(2::real) powr 1024 = 2 ^ 1024" by simp
  ultimately show ?thesis by simp
qed

text \<open>
  Where the lookup of the key is a rate or \<open>undefined\<close>, for an entropy from 0 up to
  1024 bits and a count of units from 1 up to \<open>2^980\<close>, no intermediate result leaves the
  range of a double, and the code computes the specification's \<open>crackTimeSeconds\<close>: 0
  at the entropy 0, and otherwise \<open>(2^e / 2) / (rate \<times> gpuCount)\<close>, with the rate of
  \<open>sha512\<close> for a key that the table does not have.
\<close>

lemma calculateCrackTime_Fin:
  assumes "k \<notin> set Object_prototype_keys"
    and "0 \<le> e" and "e < 1024" and "1 \<le> g" and "g \<le> 2 ^ 980"
  shows "calculateCrackTime (Some (Fin e)) k (Fin g) = Fin (crackTimeSeconds e k g)"
proof (cases "e = 0")
  case True
  then show ?thesis by (simp add: calculateCrackTime_def crackTimeSeconds_def)
next
  case False
  define p where "p = (2::real) powr e"
  define t where "t = referenceRate k * g"
  have p: "1 \<le> p" "p < 2 ^ 1024"
    using two_powr_bounds [OF assms(2,3)] by (simp_all add: p_def)
  have r: "2200 \<le> referenceRate k" "referenceRate k \<le> 10 ^ 12"
    using referenceRate_bounds [of k] by simp_all
  have t_lo: "2200 \<le> t"
  proof -
    have "2200 * 1 \<le> referenceRate k * g"
      using r(1) assms(4) by (intro mult_mono) simp_all
    then show ?thesis by (simp add: t_def)
  qed
  have t_hi: "t \<le> 10 ^ 12 * 2 ^ 980"
    unfolding t_def using r assms(4,5) by (intro mult_mono) simp_all
  have pw: "Math_pow (Fin 2) (Fin e) = Fin p"
    using False p by (simp add: p_def [symmetric] double_of_in_range)
  have half: "js_div (Fin p) (Fin 2) = Fin (p / 2)"
    using p by (simp add: double_of_in_range)
  have prod: "js_mul (Fin (referenceRate k)) (Fin g) = Fin t"
  proof -
    have "(10::real) ^ 12 * 2 ^ 980 < 2 ^ 1024" by simp
    with t_hi have "t < 2 ^ 1024" by linarith
    moreover have "(1::real) / 2 ^ 1075 < 2200" by simp
    with t_lo have "1 / 2 ^ 1075 < \<bar>t\<bar>" by linarith
    moreover have "\<bar>t\<bar> = t" using t_lo by simp
    ultimately show ?thesis by (simp add: t_def [symmetric] double_of_in_range)
  qed
  have quot: "js_div (Fin (p / 2)) (Fin t) = Fin (p / 2 / t)"
  proof -
    have tpos: "0 < t" using t_lo by linarith
    have "p / 2 / t \<le> p / 2 / 1"
      using p(1) t_lo by (intro divide_left_mono) simp_all
    with p(2) have hi: "p / 2 / t < 2 ^ 1024" by simp
    have "1 / 2 / (10 ^ 12 * 2 ^ 980) \<le> p / 2 / (10 ^ 12 * 2 ^ 980)"
      using p(1) by (intro divide_right_mono) simp_all
    also have "\<dots> \<le> p / 2 / t"
      using p(1) t_hi tpos by (intro divide_left_mono) simp_all
    finally have "1 / 2 / (10 ^ 12 * 2 ^ 980) \<le> p / 2 / t" .
    moreover have "(1::real) / 2 ^ 1075 < 1 / 2 / (10 ^ 12 * 2 ^ 980)" by simp
    ultimately have lo: "1 / 2 ^ 1075 < p / 2 / t" by linarith
    then have "0 < p / 2 / t" by (rule less_trans [rotated]) simp
    then have "\<bar>p / 2 / t\<bar> = p / 2 / t" by (rule abs_of_pos)
    with lo hi have "double_of (p / 2 / t) = Fin (p / 2 / t)"
      by (intro double_of_in_range) simp_all
    then show ?thesis using tpos by simp
  qed
  have "calculateCrackTime (Some (Fin e)) k (Fin g) = Fin (p / 2 / t)"
    using False
    by (simp add: calculateCrackTime_def Let_def hashRate_referenceRate [OF assms(1)]
        pw half prod quot del: Math_pow.simps js_div.simps js_mul.simps)
  then show ?thesis
    using False by (simp add: crackTimeSeconds_def Let_def p_def t_def)
qed

text \<open>The fallback at a key that the table does not have.\<close>

lemma calculateCrackTime_fallback:
  "map_of hashRates ''sha3'' = None \<and>
   calculateCrackTime (Some (Fin 1)) ''sha3'' (Fin 10) = Fin (1 / 100000000000) \<and>
   calculateCrackTime (Some (Fin 1)) ''sha512'' (Fin 10) = Fin (1 / 100000000000)"
proof -
  have k: "''sha3'' \<notin> set Object_prototype_keys" "''sha512'' \<notin> set Object_prototype_keys"
    by (simp_all add: Object_prototype_keys_def)
  have n: "map_of hashRates ''sha3'' = None" by (simp add: hashRates_def)
  have r: "referenceRate ''sha3'' = 10000000000" "referenceRate ''sha512'' = 10000000000"
    by (simp_all add: referenceRate_def hashRates_def)
  have "calculateCrackTime (Some (Fin 1)) ''sha3'' (Fin 10) = Fin (crackTimeSeconds 1 ''sha3'' 10)"
    by (rule calculateCrackTime_Fin [OF k(1)]) simp_all
  moreover
  have "calculateCrackTime (Some (Fin 1)) ''sha512'' (Fin 10) = Fin (crackTimeSeconds 1 ''sha512'' 10)"
    by (rule calculateCrackTime_Fin [OF k(2)]) simp_all
  ultimately show ?thesis
    using n by (simp add: crackTimeSeconds_def r)
qed

text \<open>
  From an entropy of 1024 bits on, \<open>Math.pow(2, entropy)\<close> is infinite, and so is the
  time.
\<close>

lemma calculateCrackTime_overflow:
  assumes "k \<notin> set Object_prototype_keys" and "1024 \<le> e" and "1 \<le> g" and "g \<le> 2 ^ 980"
  shows "calculateCrackTime (Some (Fin e)) k (Fin g) = PosInf"
proof -
  define t where "t = referenceRate k * g"
  have r: "2200 \<le> referenceRate k" "referenceRate k \<le> 10 ^ 12"
    using referenceRate_bounds [of k] by simp_all
  have t_lo: "2200 \<le> t"
  proof -
    have "2200 * 1 \<le> referenceRate k * g"
      using r(1) assms(3) by (intro mult_mono) simp_all
    then show ?thesis by (simp add: t_def)
  qed
  have t_hi: "t \<le> 10 ^ 12 * 2 ^ 980"
    unfolding t_def using r assms(3,4) by (intro mult_mono) simp_all
  have e: "e \<noteq> 0" using assms(2) by simp
  have "double_of (2 powr e) = PosInf"
    using two_powr_overflow [OF assms(2)] by (simp add: double_of_def)
  then have pw: "Math_pow (Fin 2) (Fin e) = PosInf"
    using e by simp
  have prod: "js_mul (Fin (referenceRate k)) (Fin g) = Fin t"
  proof -
    have "(10::real) ^ 12 * 2 ^ 980 < 2 ^ 1024" by simp
    with t_hi have "t < 2 ^ 1024" by linarith
    moreover have "(1::real) / 2 ^ 1075 < 2200" by simp
    with t_lo have "1 / 2 ^ 1075 < \<bar>t\<bar>" by linarith
    moreover have "\<bar>t\<bar> = t" using t_lo by simp
    ultimately show ?thesis by (simp add: t_def [symmetric] double_of_in_range)
  qed
  have "0 \<le> t" using t_lo by linarith
  then have "js_div (js_div PosInf (Fin 2)) (Fin t) = PosInf" by simp
  then show ?thesis
    using e
    by (simp add: calculateCrackTime_def Let_def hashRate_referenceRate [OF assms(1)]
        pw prod del: Math_pow.simps js_div.simps js_mul.simps)
qed

text \<open>With no compute unit at all the division is a division by zero, an infinite time.\<close>

lemma calculateCrackTime_no_units:
  "calculateCrackTime (Some (Fin 40)) ''md5'' (Fin 0) = PosInf"
  by (simp add: calculateCrackTime_def Let_def hashRates_get_def hashRates_def js_or_def
      double_of_def)

text \<open>
  An undefined entropy is outside the type of the parameter. The test \<open>entropy === 0\<close>
  is false for it, the power \<open>Math.pow(2, undefined)\<close> is \<open>NaN\<close>, and so is the result,
  not 0.
\<close>

lemma calculateCrackTime_undefined_not_zero:
  "calculateCrackTime None ''md5'' (Fin 1) \<noteq> Fin 0"
  by (simp add: calculateCrackTime_def Let_def)

text \<open>
  C3. The claim fails at a key that names a member of \<open>Object.prototype\<close>. Such a key is
  not in the table, so the claim has the rate of \<open>sha512\<close> for it. The lookup finds the
  inherited member, which is truthy: the fallback \<open>|| hashRates.sha512\<close> is not taken, the
  product of the function with the count of units is \<open>NaN\<close>, and so is the result, where
  the key \<open>sha512\<close> gives \<open>2^39 / 10^10\<close> seconds.
\<close>

theorem calculateCrackTime_inherited_key:
  "calculateCrackTime (Some (Fin 40)) ''toString'' (Fin 1) = NaN \<and>
   map_of hashRates ''toString'' = None \<and>
   calculateCrackTime (Some (Fin 40)) ''sha512'' (Fin 1) = Fin (2 ^ 39 / 10 ^ 10)"
proof (intro conjI)
  show "calculateCrackTime (Some (Fin 40)) ''toString'' (Fin 1) = NaN"
    by (simp add: calculateCrackTime_def Let_def hashRates_get_def hashRates_def js_or_def
        Object_prototype_keys_def double_of_def)
  show "map_of hashRates ''toString'' = None"
    by (simp add: hashRates_def)
  have k: "''sha512'' \<notin> set Object_prototype_keys"
    by (simp add: Object_prototype_keys_def)
  have "calculateCrackTime (Some (Fin 40)) ''sha512'' (Fin 1) = Fin (crackTimeSeconds 40 ''sha512'' 1)"
    by (rule calculateCrackTime_Fin [OF k]) simp_all
  then show "calculateCrackTime (Some (Fin 40)) ''sha512'' (Fin 1) = Fin (2 ^ 39 / 10 ^ 10)"
    by (simp add: crackTimeSeconds_def referenceRate_def hashRates_def)
qed

section \<open>Properties of the base entropy\<close>

text \<open>
  C4. For the empty password \<open>calculateEntropy\<close> returns \<open>undefined\<close>, which is not the
  number zero, and it returns \<open>undefined\<close> for the empty password only: whatever the
  estimator answers, a password that was typed has a number as its entropy.
\<close>

theorem calculateEntropy_empty_undefined:
  "calculateEntropy guessesLog10 [] = None \<and>
   calculateEntropy guessesLog10 [] \<noteq> Some (Fin 0) \<and>
   (calculateEntropy guessesLog10 password = None \<longleftrightarrow> password = [])"
  by (simp add: calculateEntropy_def)

theorem calculateEntropy_empty_undefined_witness:
  "calculateEntropy (\<lambda>p. Fin 0) [] = None \<and>
   calculateEntropy (\<lambda>p. Fin 0) ''a'' \<noteq> None"
  using calculateEntropy_empty_undefined [of "\<lambda>p. Fin 0" "''a''"] by simp

text \<open>
  The earlier revision in \<open>src/lib/calculations.ts\<close> did return the number zero for the
  empty password.
\<close>

lemma calculateEntropy_v1_empty: "calculateEntropy_v1 [] = Fin 0"
  by (simp add: calculateEntropy_v1_def)

section \<open>Properties of the tiers and labels\<close>

lemma tierRank_simps:
  "tierRank ''tier-1'' = 0" "tierRank ''tier-2'' = 1" "tierRank ''tier-3'' = 2"
  "tierRank ''tier-4'' = 3" "tierRank ''tier-5'' = 4"
  by (simp_all add: tierRank_def tiers_def)

lemma labelRank_simps:
  "labelRank ''None'' = 0" "labelRank ''Very Weak'' = 1" "labelRank ''Weak'' = 2"
  "labelRank ''Moderate'' = 3" "labelRank ''Strong'' = 4" "labelRank ''Very Strong'' = 5"
  "labelRank ''Excellent'' = 6"
  by (simp_all add: labelRank_def strengthLabels_def)

text \<open>A value below a threshold stays below it when it is made smaller.\<close>

lemma js_le_lt_trans: "js_le a b \<Longrightarrow> js_lt b t \<Longrightarrow> js_lt a t"
  by (cases a; cases b; cases t) (auto simp: js_le_def)

lemma getCrackTimeTier_mono:
  assumes "js_le s1 s2"
  shows "tierRank (getCrackTimeTier s1) \<le> tierRank (getCrackTimeTier s2)"
proof -
  have "js_lt s2 t \<Longrightarrow> js_lt s1 t" for t
    using assms by (rule js_le_lt_trans)
  then show ?thesis
    by (simp add: getCrackTimeTier_def tierRank_simps)
qed

lemma getCrackTimeTier_v1_mono:
  assumes "js_le s1 s2"
  shows "tierRank (getCrackTimeTier_v1 s1) \<le> tierRank (getCrackTimeTier_v1 s2)"
proof -
  have "js_lt s2 t \<Longrightarrow> js_lt s1 t" for t
    using assms by (rule js_le_lt_trans)
  then show ?thesis
    by (simp add: getCrackTimeTier_v1_def tierRank_simps)
qed

text \<open>
  C7. For all \<open>s1 <= s2\<close> (the comparison of the language, so also at the infinities) the
  tier of \<open>s2\<close> is not below the tier of \<open>s1\<close>. This holds for the thresholds of the
  current revision and for those of the earlier one.
\<close>

theorem getCrackTimeTier_monotone:
  "js_le s1 s2 \<Longrightarrow>
   tierRank (getCrackTimeTier s1) \<le> tierRank (getCrackTimeTier s2) \<and>
   tierRank (getCrackTimeTier_v1 s1) \<le> tierRank (getCrackTimeTier_v1 s2)"
  by (simp add: getCrackTimeTier_mono getCrackTimeTier_v1_mono)

theorem getCrackTimeTier_monotone_witness:
  "js_le (Fin 3600) (Fin 90000) \<and>
   getCrackTimeTier (Fin 3600) = ''tier-1'' \<and> getCrackTimeTier (Fin 90000) = ''tier-2'' \<and>
   tierRank (getCrackTimeTier (Fin 3600)) \<le> tierRank (getCrackTimeTier (Fin 90000))"
proof -
  have le: "js_le (Fin 3600) (Fin 90000)" by (simp add: js_le_def)
  from getCrackTimeTier_monotone [OF le] show ?thesis
    using le by (simp add: getCrackTimeTier_def)
qed

lemma getStrengthLabel_mono:
  assumes "js_le e1 e2"
  shows "labelRank (getStrengthLabel (Some e1)) \<le> labelRank (getStrengthLabel (Some e2))"
proof -
  have "js_lt e2 t \<Longrightarrow> js_lt e1 t" for t
    using assms by (rule js_le_lt_trans)
  then show ?thesis
    by (simp add: getStrengthLabel_def labelRank_simps)
qed

lemma getStrengthTier_mono:
  assumes "js_le e1 e2"
  shows "tierRank (getStrengthTier (Some e1)) \<le> tierRank (getStrengthTier (Some e2))"
proof -
  have "js_lt e2 t \<Longrightarrow> js_lt e1 t" for t
    using assms by (rule js_le_lt_trans)
  then show ?thesis
    by (simp add: getStrengthTier_def tierRank_simps)
qed

lemma getStrengthLabel_on_scale: "getStrengthLabel (Some e) \<in> set strengthLabels"
  by (simp add: getStrengthLabel_def strengthLabels_def)

lemma getStrengthTier_on_scale: "getStrengthTier (Some e) \<in> set tiers"
  by (simp add: getStrengthTier_def tiers_def)

lemma getStrengthLabel_undefined: "getStrengthLabel None \<notin> set strengthLabels"
  by (simp add: getStrengthLabel_def strengthLabels_def)

lemma getStrengthTier_undefined: "getStrengthTier None \<notin> set tiers"
  by (simp add: getStrengthTier_def tiers_def)

lemma getStrengthLabel_undefined_distinct: "getStrengthLabel None \<noteq> getStrengthLabel (Some e)"
  using getStrengthLabel_on_scale [of e] getStrengthLabel_undefined by metis

lemma getStrengthTier_undefined_distinct: "getStrengthTier None \<noteq> getStrengthTier (Some e)"
  using getStrengthTier_on_scale [of e] getStrengthTier_undefined by metis

text \<open>
  C6. On the non-negative reals the label and the tier of the strength do not decrease
  when the entropy grows; they are always on their scales; and the results for a
  missing entropy are on neither scale, so they differ from the results for every
  number, the entropy zero among them.
\<close>

theorem getStrength_monotone_total_distinct:
  "0 \<le> e1 \<Longrightarrow> e1 \<le> e2 \<Longrightarrow>
   labelRank (getStrengthLabel (Some (Fin e1))) \<le> labelRank (getStrengthLabel (Some (Fin e2))) \<and>
   tierRank (getStrengthTier (Some (Fin e1))) \<le> tierRank (getStrengthTier (Some (Fin e2))) \<and>
   getStrengthLabel (Some (Fin e1)) \<in> set strengthLabels \<and>
   getStrengthTier (Some (Fin e1)) \<in> set tiers \<and>
   getStrengthLabel None \<notin> set strengthLabels \<and>
   getStrengthTier None \<notin> set tiers \<and>
   getStrengthLabel None \<noteq> getStrengthLabel (Some (Fin 0)) \<and>
   getStrengthTier None \<noteq> getStrengthTier (Some (Fin 0))"
proof -
  assume "0 \<le> e1" "e1 \<le> e2"
  then have le: "js_le (Fin e1) (Fin e2)" by (auto simp: js_le_def)
  show ?thesis
    by (intro conjI getStrengthLabel_mono [OF le] getStrengthTier_mono [OF le]
        getStrengthLabel_on_scale getStrengthTier_on_scale
        getStrengthLabel_undefined getStrengthTier_undefined
        getStrengthLabel_undefined_distinct getStrengthTier_undefined_distinct)
qed

theorem getStrength_monotone_total_distinct_witness:
  "(0::real) \<le> 0 \<and> (0::real) \<le> 70 \<and>
   labelRank (getStrengthLabel (Some (Fin 0))) \<le> labelRank (getStrengthLabel (Some (Fin 70))) \<and>
   getStrengthLabel (Some (Fin 0)) = ''Very Weak'' \<and>
   getStrengthLabel (Some (Fin 70)) = ''Strong'' \<and>
   getStrengthLabel None = ''-''"
  using getStrength_monotone_total_distinct [of 0 70] by (simp add: getStrengthLabel_def)

text \<open>
  The earlier revision in \<open>src/lib/calculations.ts\<close> is monotone on the non-negative
  reals as well, with the label \<open>None\<close> at zero. Its argument is a number: it has no
  result for a missing entropy.
\<close>

lemma getStrengthLabel_v1_mono:
  "0 \<le> x \<Longrightarrow> x \<le> y \<Longrightarrow>
   labelRank (getStrengthLabel_v1 (Fin x)) \<le> labelRank (getStrengthLabel_v1 (Fin y))"
  by (simp add: getStrengthLabel_v1_def labelRank_simps)

lemma getStrengthTier_v1_mono:
  "0 < x \<Longrightarrow> x \<le> y \<Longrightarrow>
   tierRank (getStrengthTier_v1 (Fin x)) \<le> tierRank (getStrengthTier_v1 (Fin y))"
  by (simp add: getStrengthTier_v1_def tierRank_simps)

lemma getStrengthLabel_v1_zero: "getStrengthLabel_v1 (Fin 0) = ''None''"
  by (simp add: getStrengthLabel_v1_def)

section \<open>Properties of the duration format\<close>

lemma round_toString:
  "0 \<le> x \<Longrightarrow> number_toString (Math_round (Fin x)) = showNat (nat \<lfloor>x + 1 / 2\<rfloor>)"
proof -
  assume "0 \<le> x"
  then have "0 \<le> \<lfloor>x + 1 / 2\<rfloor>" by simp
  then show ?thesis by simp
qed

lemma toFixed0_nonneg: "0 \<le> x \<Longrightarrow> toFixed0 (Fin x) = showNat (nat \<lfloor>x + 1 / 2\<rfloor>)"
  by simp

text \<open>
  From a minute on, the chain of divisions and comparisons of \<open>formatCrackTime\<close> comes
  down to thresholds on the seconds themselves: a year of the code is 365.25 days,
  \<open>31557600\<close> seconds, while its twelve months are 360 days.
\<close>

lemma js_div_ge_one:
  assumes "1 \<le> x" and "1 \<le> c" and "c \<le> 10 ^ 12"
  shows "js_div (Fin x) (Fin c) = (if 2 ^ 1024 \<le> x / c then PosInf else Fin (x / c))"
proof -
  define y where "y = x / c"
  have c: "0 < c" using assms(2) by linarith
  have "1 / 10 ^ 12 \<le> 1 / c"
    using assms(3) c by (intro divide_left_mono) simp_all
  also have "1 / c \<le> x / c"
    using assms(1) c by (intro divide_right_mono) simp_all
  finally have lo: "1 / 10 ^ 12 \<le> y" by (simp only: y_def)
  have small: "(1::real) / 2 ^ 1075 < 1 / 10 ^ 12" by simp
  have "(0::real) < 1 / 10 ^ 12" by simp
  with lo have pos: "0 < y" by linarith
  then have a: "\<bar>y\<bar> = y" by (rule abs_of_pos)
  have n1: "\<not> \<bar>y\<bar> \<le> 1 / 2 ^ 1075"
    unfolding a using lo small by linarith
  have "- ((2::real) ^ 1024) < 0" by simp
  with pos have n2: "\<not> y \<le> - (2 ^ 1024)" by linarith
  have "double_of y = (if 2 ^ 1024 \<le> y then PosInf else Fin y)"
    unfolding double_of_def using n1 n2 by (simp only: if_False)
  moreover have "js_div (Fin x) (Fin c) = double_of y"
    using c by (simp add: y_def)
  ultimately show ?thesis by (simp only: y_def)
qed

lemma js_div_PosInf: "0 \<le> c \<Longrightarrow> js_div PosInf (Fin c) = PosInf"
  by simp

lemma formatCrackTime_Fin:
  "60 \<le> s \<Longrightarrow> formatCrackTime (Fin s) =
     (if s < 3600 then showNat (nat \<lfloor>s / 60 + 1 / 2\<rfloor>) @ '' min''
      else if s < 86400 then showNat (nat \<lfloor>s / 3600 + 1 / 2\<rfloor>) @ '' hrs''
      else if s < 2592000 then showNat (nat \<lfloor>s / 86400 + 1 / 2\<rfloor>) @ '' days''
      else if s < 31104000 then showNat (nat \<lfloor>s / 2592000 + 1 / 2\<rfloor>) @ '' mo''
      else if s < 31557600000 then showNat (nat \<lfloor>s / 31557600 + 1 / 2\<rfloor>) @ '' yrs''
      else if s < 31557600000000
        then showNat (nat \<lfloor>s / 31557600000 + 1 / 2\<rfloor>) @ ''k yrs''
      else if s < 31557600000000000
        then showNat (nat \<lfloor>s / 31557600000000 + 1 / 2\<rfloor>) @ ''M yrs''
      else if s < 31557600000000000000
        then showNat (nat \<lfloor>s / 31557600000000000 + 1 / 2\<rfloor>) @ ''B yrs''
      else if s < 31557600000000000000000
        then showNat (nat \<lfloor>s / 31557600000000000000 + 1 / 2\<rfloor>) @ ''T yrs''
      else infinity_sign)"
  unfolding formatCrackTime_def Let_def
  by (simp add: js_div_ge_one js_div_PosInf round_toString toFixed0_nonneg
      del: Math_round.simps number_toString.simps toFixed0.simps js_div.simps)

lemma formatCrackTime_below_60:
  "js_lt seconds (Fin 60) \<Longrightarrow> formatCrackTime seconds = ''Instant''"
  by (simp add: formatCrackTime_def)

lemma formatCrackTime_PosInf: "formatCrackTime PosInf = infinity_sign"
  by (simp add: formatCrackTime_def Let_def)

text \<open>\<open>NaN\<close> is below no threshold and is printed as the unbounded time.\<close>

lemma formatCrackTime_NaN: "formatCrackTime NaN = infinity_sign"
  by (simp add: formatCrackTime_def Let_def)

lemma append_neq_by_last:
  "ys \<noteq> [] \<Longrightarrow> zs \<noteq> [] \<Longrightarrow> last ys \<noteq> last zs \<Longrightarrow> xs @ ys \<noteq> zs"
  by (metis last_appendR)

lemma formatCrackTime_between:
  assumes "60 \<le> s" and "s < 31557600000000000000000"
  shows "formatCrackTime (Fin s) \<noteq> ''Instant'' \<and> formatCrackTime (Fin s) \<noteq> infinity_sign"
  using assms(2)
  by (simp add: formatCrackTime_Fin [OF assms(1)] append_neq_by_last infinity_sign_def)

text \<open>
  C8. Every value below 60 seconds is printed as \<open>Instant\<close>; every value from \<open>10^15\<close>
  years of \<open>31557600\<close> seconds on, and plus infinity, as the sign of the unbounded time;
  the values in between as neither of the two, with the unit changing exactly at the
  thresholds of an hour, a day, 30 days, 360 days and a thousand, a million, a billion
  and a trillion years.
\<close>

theorem formatCrackTime_cutoffs:
  "(js_lt seconds (Fin 60) \<longrightarrow> formatCrackTime seconds = ''Instant'') \<and>
   (31557600 * 10 ^ 15 \<le> s \<longrightarrow> formatCrackTime (Fin s) = infinity_sign) \<and>
   formatCrackTime PosInf = infinity_sign \<and>
   (60 \<le> s \<and> s < 31557600 * 10 ^ 15 \<longrightarrow>
      formatCrackTime (Fin s) \<noteq> ''Instant'' \<and> formatCrackTime (Fin s) \<noteq> infinity_sign) \<and>
   (60 \<le> s \<and> s < 3600 \<longrightarrow>
      formatCrackTime (Fin s) = showNat (nat \<lfloor>s / 60 + 1 / 2\<rfloor>) @ '' min'') \<and>
   (3600 \<le> s \<and> s < 86400 \<longrightarrow>
      formatCrackTime (Fin s) = showNat (nat \<lfloor>s / 3600 + 1 / 2\<rfloor>) @ '' hrs'') \<and>
   (86400 \<le> s \<and> s < 30 * 86400 \<longrightarrow>
      formatCrackTime (Fin s) = showNat (nat \<lfloor>s / 86400 + 1 / 2\<rfloor>) @ '' days'') \<and>
   (30 * 86400 \<le> s \<and> s < 360 * 86400 \<longrightarrow>
      formatCrackTime (Fin s) = showNat (nat \<lfloor>s / (30 * 86400) + 1 / 2\<rfloor>) @ '' mo'') \<and>
   (360 * 86400 \<le> s \<and> s < 31557600 * 10 ^ 3 \<longrightarrow>
      formatCrackTime (Fin s) = showNat (nat \<lfloor>s / 31557600 + 1 / 2\<rfloor>) @ '' yrs'') \<and>
   (31557600 * 10 ^ 3 \<le> s \<and> s < 31557600 * 10 ^ 6 \<longrightarrow>
      formatCrackTime (Fin s) = showNat (nat \<lfloor>s / (31557600 * 10 ^ 3) + 1 / 2\<rfloor>) @ ''k yrs'') \<and>
   (31557600 * 10 ^ 6 \<le> s \<and> s < 31557600 * 10 ^ 9 \<longrightarrow>
      formatCrackTime (Fin s) = showNat (nat \<lfloor>s / (31557600 * 10 ^ 6) + 1 / 2\<rfloor>) @ ''M yrs'') \<and>
   (31557600 * 10 ^ 9 \<le> s \<and> s < 31557600 * 10 ^ 12 \<longrightarrow>
      formatCrackTime (Fin s) = showNat (nat \<lfloor>s / (31557600 * 10 ^ 9) + 1 / 2\<rfloor>) @ ''B yrs'') \<and>
   (31557600 * 10 ^ 12 \<le> s \<and> s < 31557600 * 10 ^ 15 \<longrightarrow>
      formatCrackTime (Fin s) = showNat (nat \<lfloor>s / (31557600 * 10 ^ 12) + 1 / 2\<rfloor>) @ ''T yrs'')"
proof (intro conjI impI)
  show "formatCrackTime seconds = ''Instant''" if "js_lt seconds (Fin 60)"
    using that by (rule formatCrackTime_below_60)
  show "formatCrackTime PosInf = infinity_sign"
    by (rule formatCrackTime_PosInf)
  show "formatCrackTime (Fin s) = infinity_sign" if "31557600 * 10 ^ 15 \<le> s"
    using that by (simp add: formatCrackTime_Fin)
  show "formatCrackTime (Fin s) \<noteq> ''Instant''" if "60 \<le> s \<and> s < 31557600 * 10 ^ 15"
    using that formatCrackTime_between [of s] by simp
  show "formatCrackTime (Fin s) \<noteq> infinity_sign" if "60 \<le> s \<and> s < 31557600 * 10 ^ 15"
    using that formatCrackTime_between [of s] by simp
qed (simp_all add: formatCrackTime_Fin)

theorem formatCrackTime_cutoffs_witness:
  "js_lt (Fin 59) (Fin 60) \<and> formatCrackTime (Fin 59) = ''Instant'' \<and>
   formatCrackTime (Fin 60) = ''1 min'' \<and>
   formatCrackTime (Fin 7200) = ''2 hrs'' \<and>
   formatCrackTime (Fin 172800) = ''2 days'' \<and>
   formatCrackTime (Fin 5184000) = ''2 mo'' \<and>
   formatCrackTime (Fin 63115200) = ''2 yrs'' \<and>
   formatCrackTime (Fin 63115200000) = ''2k yrs'' \<and>
   formatCrackTime (Fin 63115200000000) = ''2M yrs'' \<and>
   formatCrackTime (Fin 63115200000000000) = ''2B yrs'' \<and>
   formatCrackTime (Fin 63115200000000000000) = ''2T yrs'' \<and>
   formatCrackTime (Fin 31557600000000000000000) = infinity_sign"
proof -
  have lt: "js_lt (Fin 59) (Fin 60)" by simp
  note t = formatCrackTime_cutoffs [of "Fin 59"]
  show ?thesis
    using lt t [of 60] t [of 7200] t [of 172800] t [of 5184000] t [of 63115200]
      t [of 63115200000] t [of 63115200000000] t [of 63115200000000000]
      t [of 63115200000000000000] t [of 31557600000000000000000]
    by (simp add: showNat.simps)
qed

text \<open>
  The earlier revision in \<open>src/lib/calculations.ts\<close> printed the seconds below a minute,
  and \<open>Instant\<close> below a millisecond only.
\<close>

lemma formatCrackTime_v1_thirty_seconds: "formatCrackTime_v1 (Fin 30) = ''30 sec''"
  by (simp add: formatCrackTime_v1_def showNat.simps)

section \<open>Properties of the breach lookup\<close>

text \<open>
  A request that fails, a response that is not \<open>ok\<close> and a body that cannot be read
  all give the count 0, and so does a body in which no line starts with the suffix.
\<close>

lemma queryHIBPRange_fetch_rejects:
  "fetch (range_url prefix) = FetchRejects r \<Longrightarrow> queryHIBPRange fetch prefix suffix = Fin 0"
  by (simp add: queryHIBPRange_def)

lemma queryHIBPRange_not_ok:
  "fetch (range_url prefix) = Responds False b \<Longrightarrow> queryHIBPRange fetch prefix suffix = Fin 0"
  by (simp add: queryHIBPRange_def)

lemma queryHIBPRange_text_rejects:
  "fetch (range_url prefix) = Responds ok (TextRejects r) \<Longrightarrow>
   queryHIBPRange fetch prefix suffix = Fin 0"
  by (simp add: queryHIBPRange_def)

lemma findCount_no_match:
  "\<forall>line \<in> set lines. hd (js_split '':'' line) \<noteq> suffix \<Longrightarrow> findCount lines suffix = None"
  by (induction lines) (simp_all add: Let_def)

lemma queryHIBPRange_no_match:
  "fetch (range_url prefix) = Responds True (TextResolves text) \<Longrightarrow>
   findCount (js_split [CHR 0x0D, CHR 0x0A] text) suffix = None \<Longrightarrow>
   queryHIBPRange fetch prefix suffix = Fin 0"
  by (simp add: queryHIBPRange_def)

text \<open>Once the digest is there, \<open>checkHIBP\<close> resolves: the lookup itself never rejects.\<close>

lemma checkHIBP_resolves:
  "sha1Hash password = Inr hashHex \<Longrightarrow> \<exists>n. checkHIBP sha1Hash fetch password = Inr n"
  by (simp add: checkHIBP_def Let_def)

lemma checkHIBP_transport_failure:
  assumes "sha1Hash password = Inr hashHex"
    and "fetch (range_url (take 5 hashHex)) = FetchRejects r
         \<or> (\<exists>b. fetch (range_url (take 5 hashHex)) = Responds False b)
         \<or> (\<exists>ok. fetch (range_url (take 5 hashHex)) = Responds ok (TextRejects r))"
  shows "checkHIBP sha1Hash fetch password = Inr (Fin 0)"
  using assms
  by (auto simp: checkHIBP_def Let_def queryHIBPRange_fetch_rejects queryHIBPRange_not_ok
      queryHIBPRange_text_rejects)

lemma checkHIBP_count_found:
  "checkHIBP (\<lambda>p. Inr ''5BAA61E4C9B93F3F0682250B6CF8331B7EE68FD8'')
     (\<lambda>url. Responds True (TextResolves
        (''0018A45C4D1DEF81644B54AB7F969B88D65:1'' @ [CHR 0x0D, CHR 0x0A] @
         ''1E4C9B93F3F0682250B6CF8331B7EE68FD8:37'')))
     ''password'' = Inr (Fin 37)"
  by code_simp

text \<open>
  C5. The claim holds for a failed request, a response that is not \<open>ok\<close>, an unreadable
  body and an abort (the lemmas above), and fails for a malformed line: when the line
  that carries the suffix has no number after the colon, \<open>parseInt\<close> yields \<open>NaN\<close> and
  \<open>checkHIBP\<close> resolves to \<open>NaN\<close>, not to 0. The password here is \<open>password\<close>, with its
  SHA-1 digest; the line of its suffix ends at the colon.
\<close>

theorem checkHIBP_malformed_line_NaN:
  "checkHIBP (\<lambda>p. Inr ''5BAA61E4C9B93F3F0682250B6CF8331B7EE68FD8'')
     (\<lambda>url. Responds True (TextResolves
        (''0018A45C4D1DEF81644B54AB7F969B88D65:1'' @ [CHR 0x0D, CHR 0x0A] @
         ''1E4C9B93F3F0682250B6CF8331B7EE68FD8:'')))
     ''password'' = Inr NaN"
  by code_simp

text \<open>The same when the line is cut before the colon, so that the count is \<open>undefined\<close>.\<close>

lemma checkHIBP_truncated_line_NaN:
  "checkHIBP (\<lambda>p. Inr ''5BAA61E4C9B93F3F0682250B6CF8331B7EE68FD8'')
     (\<lambda>url. Responds True (TextResolves ''1E4C9B93F3F0682250B6CF8331B7EE68FD8''))
     ''password'' = Inr NaN"
  by code_simp

text \<open>
  A count of \<open>NaN\<close> is neither zero nor greater than zero: the penalty turns the entropy
  into \<open>NaN\<close> and reports no breach.
\<close>

lemma calculatePenalizedEntropy_NaN_count:
  "calculatePenalizedEntropy (Fin 40) NaN = \<lparr>entropy = NaN, isPenalized = False\<rparr>"
  by (simp add: calculatePenalizedEntropy_def penalizedEntropy_def rank_def frequency_def
      zipf_C_def zipf_s_def breachedEntropyCap_def Math_min3_def Math_min_def Math_max_def
      js_gt_def double_of_def)

end
